theory Spec2Isabelle
  imports Main "HOL-Library.Word" "HOL-Library.Signed_Division"
begin

section \<open>The OQS key handler (oqsprov/oqsprov\_keys.c)\<close>

text \<open>
  A shallow embedding of the key code of \<^verbatim>\<open>oqsprov_keys.c\<close>. Pointers are options
  (\<open>None\<close> is \<^verbatim>\<open>NULL\<close>) holding what they point to; every buffer of a key is owned by
  that key alone, so no two pointers of the model alias. What a function does beyond
  its return value (allocator calls, the error queue, the output streams) is appended
  to a log of events carried by the \<open>world\<close>. A call that the C language gives no
  meaning (or that aborts the process) ends in a \<open>fault\<close>.
\<close>

subsection \<open>Data\<close>

type_synonym byte = "8 word"

text \<open>
  Modelled from the spec: the structures \<^verbatim>\<open>OQS_KEM\<close> and \<^verbatim>\<open>OQS_SIG\<close> are declared by
  liboqs, outside \<^verbatim>\<open>src/\<close>. The algorithm handle exposes its advertised lengths and
  its claimed security level; only the members the key code reads are kept. The
  claimed level is an unsigned octet, the lengths are \<^verbatim>\<open>size_t\<close>.
\<close>

record OQS_KEM =
  kem_claimed_nist_level :: "8 word"
  kem_length_public_key :: nat
  kem_length_secret_key :: nat
  kem_length_shared_secret :: nat

record OQS_SIG =
  sig_claimed_nist_level :: "8 word"
  sig_length_public_key :: nat
  sig_length_secret_key :: nat
  sig_length_signature :: nat

text \<open>The union \<^verbatim>\<open>key\<close> of the key object: one pointer, read as \<^verbatim>\<open>key.k\<close> or \<^verbatim>\<open>key.s\<close>.\<close>

datatype key_union = K "OQS_KEM option" | S "OQS_SIG option"

text \<open>
  Modelled from the spec: \<^verbatim>\<open>OQSX_KEY\<close> is declared in \<^verbatim>\<open>oqsx.h\<close>, outside \<^verbatim>\<open>src/\<close>. The
  members are the ones the key code uses; \<open>references\<close> is the atomic integer of
  the spec, a C \<^verbatim>\<open>int\<close> (the functions read it into \<^verbatim>\<open>int refcnt\<close>).
\<close>

record OQSX_KEY =
  libctx :: "nat option"
  propq :: "string option"
  key :: key_union
  privkeylen :: nat
  pubkeylen :: nat
  privkey :: "byte list option"
  pubkey :: "byte list option"
  tls_name :: "string option"
  iskem :: int
  references :: "32 word"

datatype fault =
    AssertionFailed
  | NullDereference
  | InactiveUnionMember
  | SignedOverflow

datatype resource = KeyObject | AlgHandle | TlsName | Propq | PrivKey | PubKey

datatype err_lib = ERR_LIB_EC | ERR_LIB_PROV

datatype err_reason = ERR_R_MALLOC_FAILURE

datatype event =
    Allocated resource
  | Released resource
  | ClearedReleased resource nat
  | ErrRaised err_lib err_reason
  | Stdout string
  | StderrRefcnt int

text \<open>
  The world outside the key: \<open>alloc_plan\<close> gives the outcome of the coming allocator
  requests in call order (\<open>True\<close>: memory is handed out; a request beyond the plan
  fails), \<open>events\<close> is the log.
\<close>

record world =
  alloc_plan :: "bool list"
  events :: "event list"

definition emit :: "event \<Rightarrow> world \<Rightarrow> world" where
  "emit e w = w\<lparr>events := events w @ [e]\<rparr>"

subsection \<open>Reading the algorithm handle\<close>

text \<open>\<^verbatim>\<open>key->key.k->...\<close> and \<^verbatim>\<open>key->key.s->...\<close>: the pointer is dereferenced.\<close>

definition deref_k :: "key_union \<Rightarrow> fault + OQS_KEM" where
  "deref_k u = (case u of
      K None \<Rightarrow> Inl NullDereference
    | K (Some k) \<Rightarrow> Inr k
    | S None \<Rightarrow> Inl NullDereference
    | S (Some s) \<Rightarrow> Inl InactiveUnionMember)"

definition deref_s :: "key_union \<Rightarrow> fault + OQS_SIG" where
  "deref_s u = (case u of
      S None \<Rightarrow> Inl NullDereference
    | S (Some s) \<Rightarrow> Inr s
    | K None \<Rightarrow> Inl NullDereference
    | K (Some k) \<Rightarrow> Inl InactiveUnionMember)"

subsection \<open>Metadata queries\<close>

text \<open>
  \<^verbatim>\<open>128+(level-1)/2*64\<close>: the octet is promoted to \<^verbatim>\<open>int\<close>, and C's division
  truncates towards zero (\<open>sdiv\<close>).
\<close>

definition level_bits :: "8 word \<Rightarrow> int" where
  "level_bits l = 128 + (uint l - 1) sdiv 2 * 64"

definition oqsx_key_parambits :: "OQSX_KEY \<Rightarrow> fault + int" where
  "oqsx_key_parambits key' =
     (if iskem key' \<noteq> 0 then
        (case deref_k (key key') of
           Inl f \<Rightarrow> Inl f
         | Inr k \<Rightarrow> Inr (level_bits (kem_claimed_nist_level k)))
      else
        (case deref_s (key key') of
           Inl f \<Rightarrow> Inl f
         | Inr s \<Rightarrow> Inr (level_bits (sig_claimed_nist_level s))))"

subsection \<open>The allocators\<close>

text \<open>
  One allocator request: the next entry of the plan decides, and a request that is
  served is logged with the resource it is for.
\<close>

definition request :: "resource \<Rightarrow> world \<Rightarrow> bool \<times> world" where
  "request r w = (case alloc_plan w of
      [] \<Rightarrow> (False, w)
    | b # bs \<Rightarrow> (b, (if b then emit (Allocated r) (w\<lparr>alloc_plan := bs\<rparr>)
                         else w\<lparr>alloc_plan := bs\<rparr>)))"

text \<open>\<^verbatim>\<open>OPENSSL_zalloc(sizeof(*ret))\<close>: a key object with every member zero.\<close>

definition zeroed_key :: OQSX_KEY where
  "zeroed_key = \<lparr>libctx = None, propq = None, key = K None, privkeylen = 0,
     pubkeylen = 0, privkey = None, pubkey = None, tls_name = None, iskem = 0,
     references = 0\<rparr>"

definition OPENSSL_zalloc :: "world \<Rightarrow> OQSX_KEY option \<times> world" where
  "OPENSSL_zalloc w =
     (case request KeyObject w of
        (True, w') \<Rightarrow> (Some zeroed_key, w')
      | (False, w') \<Rightarrow> (None, w'))"

text \<open>\<^verbatim>\<open>OPENSSL_strdup\<close>: \<^verbatim>\<open>NULL\<close> for \<^verbatim>\<open>NULL\<close>, else a copy if memory is handed out.\<close>

definition OPENSSL_strdup :: "resource \<Rightarrow> string option \<Rightarrow> world \<Rightarrow> string option \<times> world" where
  "OPENSSL_strdup r s w =
     (case s of
        None \<Rightarrow> (None, w)
      | Some str \<Rightarrow>
         (case request r w of
            (True, w') \<Rightarrow> (Some str, w')
          | (False, w') \<Rightarrow> (None, w')))"

text \<open>\<^verbatim>\<open>OPENSSL_secure_zalloc(n)\<close>: \<open>n\<close> zero bytes.\<close>

definition OPENSSL_secure_zalloc :: "resource \<Rightarrow> nat \<Rightarrow> world \<Rightarrow> byte list option \<times> world" where
  "OPENSSL_secure_zalloc r n w =
     (case request r w of
        (True, w') \<Rightarrow> (Some (replicate n 0), w')
      | (False, w') \<Rightarrow> (None, w'))"

text \<open>
  \<^verbatim>\<open>OPENSSL_secure_malloc(n)\<close>: \<open>n\<close> bytes of indeterminate content (zero here; the
  one caller overwrites all of them before anything reads them).
\<close>

definition OPENSSL_secure_malloc :: "resource \<Rightarrow> nat \<Rightarrow> world \<Rightarrow> byte list option \<times> world" where
  "OPENSSL_secure_malloc r n w =
     (case request r w of
        (True, w') \<Rightarrow> (Some (replicate n 0), w')
      | (False, w') \<Rightarrow> (None, w'))"

definition memcpy :: "byte list \<Rightarrow> byte list \<Rightarrow> nat \<Rightarrow> byte list" where
  "memcpy dst src n = take n src @ drop n dst"

text \<open>The releasing calls do nothing on \<^verbatim>\<open>NULL\<close>.\<close>

definition OPENSSL_free :: "resource \<Rightarrow> 'a option \<Rightarrow> world \<Rightarrow> world" where
  "OPENSSL_free r p w = (case p of None \<Rightarrow> w | Some x \<Rightarrow> emit (Released r) w)"

definition OPENSSL_secure_clear_free :: "resource \<Rightarrow> byte list option \<Rightarrow> nat \<Rightarrow> world \<Rightarrow> world" where
  "OPENSSL_secure_clear_free r p n w =
     (case p of None \<Rightarrow> w | Some x \<Rightarrow> emit (ClearedReleased r n) w)"

text \<open>
  \<^verbatim>\<open>OQS_KEM_new\<close> and \<^verbatim>\<open>OQS_SIG_new\<close> belong to liboqs: the embedding takes them as
  the functions \<open>kem_new\<close> and \<open>sig_new\<close> from a name to a handle or \<^verbatim>\<open>NULL\<close>. A handle
  that is handed out is logged; \<^verbatim>\<open>OQS_KEM_free\<close> and \<^verbatim>\<open>OQS_SIG_free\<close> release the
  pointer stored in the union, whichever member it is read through, and do nothing
  on \<^verbatim>\<open>NULL\<close>.
\<close>

definition OQS_new :: "'a option \<Rightarrow> world \<Rightarrow> world" where
  "OQS_new h w = (case h of None \<Rightarrow> w | Some x \<Rightarrow> emit (Allocated AlgHandle) w)"

definition OQS_KEM_free :: "key_union \<Rightarrow> world \<Rightarrow> world" where
  "OQS_KEM_free u w = (case u of
      K p \<Rightarrow> OPENSSL_free AlgHandle p w
    | S p \<Rightarrow> OPENSSL_free AlgHandle p w)"

definition OQS_SIG_free :: "key_union \<Rightarrow> world \<Rightarrow> world" where
  "OQS_SIG_free u w = (case u of
      S p \<Rightarrow> OPENSSL_free AlgHandle p w
    | K p \<Rightarrow> OPENSSL_free AlgHandle p w)"

subsection \<open>Construction\<close>

text \<open>
  \<^verbatim>\<open>oqsx_key_new\<close>. The result is the returned pointer and the world, or a fault: the
  handle returned by liboqs is dereferenced without a check.
\<close>

definition oqsx_key_new ::
  "(string \<Rightarrow> OQS_KEM option) \<Rightarrow> (string \<Rightarrow> OQS_SIG option) \<Rightarrow> nat option \<Rightarrow> string \<Rightarrow>
   string option \<Rightarrow> int \<Rightarrow> string option \<Rightarrow> world \<Rightarrow> fault + (OQSX_KEY option \<times> world)" where
  "oqsx_key_new kem_new sig_new libctx' oqs_name tls_name' is_kem propq' w0 =
     (case OPENSSL_zalloc w0 of
        (None, w1) \<Rightarrow> Inr (None, w1)
      | (Some ret0, w1) \<Rightarrow>
         (case (if is_kem \<noteq> 0 then
                  (let h = kem_new oqs_name; w2 = OQS_new h w1; ret1 = ret0\<lparr>key := K h\<rparr> in
                   case deref_k (key ret1) of
                     Inl f \<Rightarrow> Inl f
                   | Inr k \<Rightarrow>
                      Inr (ret1\<lparr>privkeylen := kem_length_secret_key k,
                                 pubkeylen := kem_length_public_key k,
                                 iskem := 1\<rparr>, w2))
                else
                  (let h = sig_new oqs_name; w2 = OQS_new h w1; ret1 = ret0\<lparr>key := S h\<rparr> in
                   case deref_s (key ret1) of
                     Inl f \<Rightarrow> Inl f
                   | Inr s \<Rightarrow>
                      Inr (ret1\<lparr>privkeylen := sig_length_secret_key s,
                                 pubkeylen := sig_length_public_key s,
                                 iskem := 0\<rparr>, w2))) of
            Inl f \<Rightarrow> Inl f
          | Inr (ret2, w2) \<Rightarrow>
             (let ret3 = ret2\<lparr>libctx := libctx', references := 1\<rparr>;
                  (t, w3) = OPENSSL_strdup TlsName tls_name' w2;
                  ret4 = ret3\<lparr>tls_name := t\<rparr>
              in case propq' of
                   None \<Rightarrow> Inr (Some ret4, w3)
                 | Some q \<Rightarrow>
                    (let (c, w4) = OPENSSL_strdup Propq (Some q) w3;
                         ret5 = ret4\<lparr>propq := c\<rparr>;
                         w5 = emit (ErrRaised ERR_LIB_EC ERR_R_MALLOC_FAILURE) w4
                     in if c = None then
                          (let w6 = emit (ErrRaised ERR_LIB_EC ERR_R_MALLOC_FAILURE) w5
                           in Inr (None, OPENSSL_free KeyObject (Some ret5) w6))
                        else Inr (Some ret5, w5)))))"

subsection \<open>Reference counting\<close>

text \<open>
  The atomic read-modify-write is one step: the stored count wraps around (as the
  atomic operations of C do), the value it returns is the count before. The
  \<^verbatim>\<open>int\<close> arithmetic on that value has no meaning when it overflows. \<open>ndebug\<close> says
  whether \<^verbatim>\<open>NDEBUG\<close> is defined: if it is not, the count is printed on the error
  stream and \<^verbatim>\<open>assert\<close> aborts the process when its condition is false.
\<close>

definition INT_MAX :: int where
  "INT_MAX = 2147483647"

definition INT_MIN :: int where
  "INT_MIN = - 2147483648"

definition debug_line :: "bool \<Rightarrow> int \<Rightarrow> world \<Rightarrow> world" where
  "debug_line ndebug refcnt w = (if ndebug then w else emit (StderrRefcnt refcnt) w)"

text \<open>What \<^verbatim>\<open>oqsx_key_free\<close> releases once the count is spent, in the order of the code.\<close>

definition release_all :: "OQSX_KEY \<Rightarrow> world \<Rightarrow> world" where
  "release_all key' w =
     (let w1 = OPENSSL_free Propq (propq key') w;
          w2 = OPENSSL_secure_clear_free PrivKey (privkey key') (privkeylen key') w1;
          w3 = OPENSSL_secure_clear_free PubKey (pubkey key') (pubkeylen key') w2;
          w4 = (if iskem key' \<noteq> 0 then OQS_KEM_free (key key') w3
                else OQS_SIG_free (key key') w3)
      in OPENSSL_free KeyObject (Some key') w4)"

text \<open>
  \<^verbatim>\<open>oqsx_key_free\<close>. The result holds the memory the pointer refers to after the call;
  once \<open>Released KeyObject\<close> is logged that memory is no longer the caller's.
\<close>

definition oqsx_key_free :: "bool \<Rightarrow> OQSX_KEY option \<Rightarrow> world \<Rightarrow> fault + (OQSX_KEY option \<times> world)" where
  "oqsx_key_free ndebug keyp w =
     (case keyp of
        None \<Rightarrow> Inr (None, w)
      | Some key0 \<Rightarrow>
         (let old = references key0;
              key1 = key0\<lparr>references := old - 1\<rparr>
          in if sint old = INT_MIN then Inl SignedOverflow
             else
               (let refcnt = sint old - 1;
                    w1 = debug_line ndebug refcnt w
                in if refcnt > 0 then Inr (Some key1, w1)
                   else if \<not> ndebug \<and> refcnt \<noteq> 0 then Inl AssertionFailed
                   else Inr (Some key1, release_all key1 w1))))"

text \<open>\<^verbatim>\<open>oqsx_key_up_ref\<close>, on a pointer that is not \<^verbatim>\<open>NULL\<close>.\<close>

definition oqsx_key_up_ref :: "bool \<Rightarrow> OQSX_KEY \<Rightarrow> world \<Rightarrow> fault + (int \<times> OQSX_KEY \<times> world)" where
  "oqsx_key_up_ref ndebug key0 w =
     (let old = references key0;
          key1 = key0\<lparr>references := old + 1\<rparr>
      in if sint old = INT_MAX then Inl SignedOverflow
         else
           (let refcnt = sint old + 1;
                w1 = debug_line ndebug refcnt w
            in if \<not> ndebug \<and> \<not> refcnt > 1 then Inl AssertionFailed
               else Inr ((if refcnt > 1 then 1 else 0), key1, w1)))"

text \<open>A run of \<open>n\<close> calls of \<^verbatim>\<open>oqsx_key_free\<close> on the same pointer.\<close>

fun free_calls :: "bool \<Rightarrow> nat \<Rightarrow> OQSX_KEY option \<Rightarrow> world \<Rightarrow> fault + (OQSX_KEY option \<times> world)" where
  "free_calls ndebug 0 keyp w = Inr (keyp, w)"
| "free_calls ndebug (Suc n) keyp w =
     (case oqsx_key_free ndebug keyp w of
        Inl f \<Rightarrow> Inl f
      | Inr (keyp', w') \<Rightarrow> free_calls ndebug n keyp' w')"

text \<open>How often a resource has been released according to a log.\<close>

fun releases :: "resource \<Rightarrow> event \<Rightarrow> bool" where
  "releases r (Released r') = (r = r')"
| "releases r (ClearedReleased r' n) = (r = r')"
| "releases r e = False"

definition release_count :: "resource \<Rightarrow> event list \<Rightarrow> nat" where
  "release_count r es = length (filter (releases r) es)"

subsection \<open>Key material\<close>

text \<open>\<^verbatim>\<open>oqsx_key_allocate_keymaterial\<close>: 0 is the success code, 1 the failure code.\<close>

definition oqsx_key_allocate_keymaterial :: "OQSX_KEY \<Rightarrow> world \<Rightarrow> int \<times> OQSX_KEY \<times> world" where
  "oqsx_key_allocate_keymaterial key0 w0 =
     (let (p, w1) = OPENSSL_secure_zalloc PrivKey (privkeylen key0) w0;
          key1 = key0\<lparr>privkey := p\<rparr>;
          (q, w2) = OPENSSL_secure_zalloc PubKey (pubkeylen key1) w1;
          key2 = key1\<lparr>pubkey := q\<rparr>
      in if privkey key2 = None \<or> pubkey key2 = None then (1, key2, w2)
         else (0, key2, w2))"

text \<open>
  An \<^verbatim>\<open>OSSL_PARAM\<close> entry: its name, its declared type and its bytes;
  \<^verbatim>\<open>data_size\<close> is the number of bytes \<^verbatim>\<open>data\<close> points to. The names and the type
  code are those of the OpenSSL headers.
\<close>

record OSSL_PARAM =
  param_key :: string
  data_type :: nat
  data :: "byte list"

definition data_size :: "OSSL_PARAM \<Rightarrow> nat" where
  "data_size p = length (data p)"

definition OSSL_PKEY_PARAM_PRIV_KEY :: string where
  "OSSL_PKEY_PARAM_PRIV_KEY = ''priv''"

definition OSSL_PKEY_PARAM_PUB_KEY :: string where
  "OSSL_PKEY_PARAM_PUB_KEY = ''pub''"

definition OSSL_PARAM_OCTET_STRING :: nat where
  "OSSL_PARAM_OCTET_STRING = 5"

text \<open>\<^verbatim>\<open>OSSL_PARAM_locate_const\<close>: the first entry of that name, or \<^verbatim>\<open>NULL\<close>.\<close>

definition OSSL_PARAM_locate_const :: "OSSL_PARAM list \<Rightarrow> string \<Rightarrow> OSSL_PARAM option" where
  "OSSL_PARAM_locate_const params name = find (\<lambda>p. param_key p = name) params"

definition invalid_data_type :: string where
  "invalid_data_type = ''invalid data type'' @ [CHR 0x0A]"

text \<open>
  \<^verbatim>\<open>oqsx_key_fromdata\<close> in its two blocks. Each block ends in \<open>Inl\<close> where the code
  returns 0 from inside it, and in \<open>Inr\<close> where control goes on.
\<close>

definition fromdata_priv :: "OQSX_KEY \<Rightarrow> OSSL_PARAM list \<Rightarrow> world \<Rightarrow> (OQSX_KEY \<times> world) + (OQSX_KEY \<times> world)" where
  "fromdata_priv key0 params w0 =
     (case OSSL_PARAM_locate_const params OSSL_PKEY_PARAM_PRIV_KEY of
        None \<Rightarrow> Inr (key0, w0)
      | Some p \<Rightarrow>
         if data_type p \<noteq> OSSL_PARAM_OCTET_STRING then
           Inl (key0, emit (Stdout invalid_data_type) w0)
         else
           (let w1 = OPENSSL_secure_clear_free PrivKey (privkey key0) (privkeylen key0) w0;
                (b, w2) = OPENSSL_secure_malloc PrivKey (data_size p) w1;
                key1 = key0\<lparr>privkey := b\<rparr>
            in case b of
                 None \<Rightarrow> Inl (key1, emit (ErrRaised ERR_LIB_PROV ERR_R_MALLOC_FAILURE) w2)
               | Some buf \<Rightarrow>
                  Inr (key1\<lparr>privkey := Some (memcpy buf (data p) (data_size p)),
                            privkeylen := data_size p\<rparr>, w2)))"

definition fromdata_pub :: "OQSX_KEY \<Rightarrow> OSSL_PARAM list \<Rightarrow> world \<Rightarrow> (OQSX_KEY \<times> world) + (OQSX_KEY \<times> world)" where
  "fromdata_pub key0 params w0 =
     (case OSSL_PARAM_locate_const params OSSL_PKEY_PARAM_PUB_KEY of
        None \<Rightarrow> Inr (key0, w0)
      | Some p \<Rightarrow>
         if data_type p \<noteq> OSSL_PARAM_OCTET_STRING then
           Inl (key0, emit (Stdout invalid_data_type) w0)
         else
           (let w1 = OPENSSL_secure_clear_free PubKey (pubkey key0) (pubkeylen key0) w0;
                (b, w2) = OPENSSL_secure_malloc PubKey (data_size p) w1;
                key1 = key0\<lparr>pubkey := b\<rparr>
            in case b of
                 None \<Rightarrow> Inl (key1, emit (ErrRaised ERR_LIB_PROV ERR_R_MALLOC_FAILURE) w2)
               | Some buf \<Rightarrow>
                  Inr (key1\<lparr>pubkey := Some (memcpy buf (data p) (data_size p)),
                            pubkeylen := data_size p\<rparr>, w2)))"

text \<open>The argument \<open>include_private\<close> is declared and never read.\<close>

definition oqsx_key_fromdata :: "OQSX_KEY \<Rightarrow> OSSL_PARAM list \<Rightarrow> int \<Rightarrow> world \<Rightarrow> int \<times> OQSX_KEY \<times> world" where
  "oqsx_key_fromdata key0 params include_private w0 =
     (case fromdata_priv key0 params w0 of
        Inl (key1, w1) \<Rightarrow> (0, key1, w1)
      | Inr (key1, w1) \<Rightarrow>
         (case fromdata_pub key1 params w1 of
            Inl (key2, w2) \<Rightarrow> (0, key2, w2)
          | Inr (key2, w2) \<Rightarrow> (1, key2, w2)))"

subsection \<open>The spec's formula, ownership, and sample values\<close>

text \<open>
  The security strength as the spec words it, \<open>128 + floor ((L - 1) / 2) * 64\<close>
  (\<open>div\<close> on \<open>int\<close> rounds down), to be compared with \<open>level_bits\<close>.
\<close>

definition spec_security_bits :: "int \<Rightarrow> int" where
  "spec_security_bits L = 128 + (L - 1) div 2 * 64"

text \<open>The level claimed by the algorithm handle of a key with a valid handle.\<close>

definition claimed_level :: "OQSX_KEY \<Rightarrow> 8 word option" where
  "claimed_level key' =
     (if iskem key' \<noteq> 0 then
        (case key key' of K (Some k) \<Rightarrow> Some (kem_claimed_nist_level k) | _ \<Rightarrow> None)
      else
        (case key key' of S (Some s) \<Rightarrow> Some (sig_claimed_nist_level s) | _ \<Rightarrow> None))"

text \<open>
  The resources \<^verbatim>\<open>oqsx_key_free\<close> hands back for a key: the pointers that are not
  \<^verbatim>\<open>NULL\<close>, and the object. The copy of the name is not among them.
\<close>

fun holds :: "OQSX_KEY \<Rightarrow> resource \<Rightarrow> bool" where
  "holds key' Propq = (propq key' \<noteq> None)"
| "holds key' PrivKey = (privkey key' \<noteq> None)"
| "holds key' PubKey = (pubkey key' \<noteq> None)"
| "holds key' AlgHandle = (key key' \<noteq> K None \<and> key key' \<noteq> S None)"
| "holds key' KeyObject = True"
| "holds key' TlsName = False"

definition demo_kem :: OQS_KEM where
  "demo_kem = \<lparr>kem_claimed_nist_level = 3, kem_length_public_key = 2,
     kem_length_secret_key = 3, kem_length_shared_secret = 4\<rparr>"

definition demo_sig :: OQS_SIG where
  "demo_sig = \<lparr>sig_claimed_nist_level = 5, sig_length_public_key = 2,
     sig_length_secret_key = 3, sig_length_signature = 6\<rparr>"

definition demo_kems :: "string \<Rightarrow> OQS_KEM option" where
  "demo_kems name = (if name = ''demo-kem'' then Some demo_kem else None)"

definition demo_sigs :: "string \<Rightarrow> OQS_SIG option" where
  "demo_sigs name = (if name = ''demo-sig'' then Some demo_sig else None)"

definition demo_key :: OQSX_KEY where
  "demo_key = \<lparr>libctx = None, propq = Some ''p'', key = K (Some demo_kem),
     privkeylen = 3, pubkeylen = 2, privkey = None, pubkey = None,
     tls_name = Some ''demo'', iskem = 1, references = 1\<rparr>"

definition fresh_world :: "bool list \<Rightarrow> world" where
  "fresh_world plan = \<lparr>alloc_plan = plan, events = []\<rparr>"

text \<open>Sample parameter entries.\<close>

definition priv_entry :: "nat \<Rightarrow> byte list \<Rightarrow> OSSL_PARAM" where
  "priv_entry t bs = \<lparr>param_key = ''priv'', data_type = t, data = bs\<rparr>"

definition pub_entry :: "nat \<Rightarrow> byte list \<Rightarrow> OSSL_PARAM" where
  "pub_entry t bs = \<lparr>param_key = ''pub'', data_type = t, data = bs\<rparr>"

definition other_entry :: OSSL_PARAM where
  "other_entry = \<lparr>param_key = ''group'', data_type = 4, data = [1]\<rparr>"

section \<open>Properties\<close>

subsection \<open>Auxiliary facts\<close>

lemma sint_ge32: "- 2147483648 \<le> sint (x :: 32 word)"
  using sint_ge [of x] by simp

lemma sint_lt32: "sint (x :: 32 word) < 2147483648"
  using sint_lt [of x] by simp

lemma sint_succ32: "sint (x :: 32 word) < 2147483647 \<Longrightarrow> sint (x + 1) = sint x + 1"
  using sint_ge32 [of x]
  by (simp add: sint_word_ariths signed_take_bit_int_eq_self)

lemma sint_pred32: "- 2147483648 < sint (x :: 32 word) \<Longrightarrow> sint (x - 1) = sint x - 1"
  using sint_lt32 [of x]
  by (simp add: sint_word_ariths signed_take_bit_int_eq_self)

lemma release_count_emit:
  "release_count r (events (emit e w)) =
     release_count r (events w) + (if releases r e then 1 else 0)"
  by (simp add: release_count_def emit_def)

lemma release_count_debug_line:
  "release_count r (events (debug_line nd c w)) = release_count r (events w)"
  by (simp add: debug_line_def release_count_emit)

lemma release_count_release_all:
  "release_count r (events (release_all k w)) =
     release_count r (events w) + (if holds k r then 1 else 0)"
  by (cases r; cases "key k")
     (auto simp: release_all_def Let_def OPENSSL_free_def OPENSSL_secure_clear_free_def
        OQS_KEM_free_def OQS_SIG_free_def release_count_emit split: option.splits)

lemma holds_references [simp]: "holds (k\<lparr>references := c\<rparr>) r = holds k r"
  by (cases r) simp_all

lemma memcpy_whole: "length dst = length src \<Longrightarrow> memcpy dst src (length src) = src"
  by (simp add: memcpy_def)

subsection \<open>Security strength\<close>

lemma level_bits_floor: "1 \<le> uint l \<Longrightarrow> level_bits l = spec_security_bits (uint l)"
  by (simp add: level_bits_def spec_security_bits_def signed_divide_int_def sgn_if)

text \<open>
  C7, as stated, fails at level 0: the code's division truncates, so the key reports
  128 bits where the formula with \<open>floor\<close> gives 64.
\<close>

theorem parambits_level_zero:
  "claimed_level (demo_key\<lparr>key := K (Some (demo_kem\<lparr>kem_claimed_nist_level := 0\<rparr>))\<rparr>) = Some 0
   \<and> oqsx_key_parambits (demo_key\<lparr>key := K (Some (demo_kem\<lparr>kem_claimed_nist_level := 0\<rparr>))\<rparr>)
       = Inr 128
   \<and> spec_security_bits (uint (0 :: 8 word)) = 64
   \<and> oqsx_key_parambits (demo_key\<lparr>key := K (Some (demo_kem\<lparr>kem_claimed_nist_level := 0\<rparr>))\<rparr>)
       \<noteq> Inr (spec_security_bits (uint (0 :: 8 word)))"
  by (simp add: claimed_level_def oqsx_key_parambits_def deref_k_def demo_key_def demo_kem_def
      level_bits_def spec_security_bits_def signed_divide_int_def)

text \<open>
  C7, amended: for every key whose algorithm handle claims a level \<open>L\<close> of at least 1,
  KEM or signature, \<^verbatim>\<open>oqsx_key_parambits\<close> returns \<open>128 + floor ((L - 1) / 2) * 64\<close>;
  that is 128 for level 1, 192 for level 3 and 256 for level 5.
\<close>

theorem parambits_formula:
  "(1 \<le> uint L \<longrightarrow> claimed_level key' = Some L \<longrightarrow>
      oqsx_key_parambits key' = Inr (spec_security_bits (uint L)))
   \<and> spec_security_bits 1 = 128 \<and> spec_security_bits 3 = 192 \<and> spec_security_bits 5 = 256"
proof -
  have "oqsx_key_parambits key' = Inr (level_bits L)" if "claimed_level key' = Some L"
    using that
    by (auto simp: claimed_level_def oqsx_key_parambits_def deref_k_def deref_s_def
        split: if_splits key_union.splits option.splits)
  then show ?thesis
    by (simp add: level_bits_floor) (simp add: spec_security_bits_def)
qed

theorem parambits_formula_witness:
  "1 \<le> uint (3 :: 8 word) \<and> claimed_level demo_key = Some 3
   \<and> oqsx_key_parambits demo_key = Inr 192
   \<and> claimed_level (demo_key\<lparr>key := S (Some demo_sig), iskem := 0\<rparr>) = Some 5
   \<and> oqsx_key_parambits (demo_key\<lparr>key := S (Some demo_sig), iskem := 0\<rparr>) = Inr 256"
  using parambits_formula [of 3 demo_key]
    parambits_formula [of 5 "demo_key\<lparr>key := S (Some demo_sig), iskem := 0\<rparr>"]
  by (simp add: claimed_level_def demo_key_def demo_kem_def demo_sig_def spec_security_bits_def)

subsection \<open>Reference counting\<close>

lemma free_positive:
  "1 < sint (references k) \<Longrightarrow>
   oqsx_key_free nd (Some k) w =
     Inr (Some (k\<lparr>references := references k - 1\<rparr>),
          debug_line nd (sint (references k) - 1) w)"
  by (simp add: oqsx_key_free_def Let_def INT_MIN_def)

lemma free_last:
  "sint (references k) = 1 \<Longrightarrow>
   oqsx_key_free nd (Some k) w =
     Inr (Some (k\<lparr>references := references k - 1\<rparr>),
          release_all (k\<lparr>references := references k - 1\<rparr>) (debug_line nd 0 w))"
  by (simp add: oqsx_key_free_def Let_def INT_MIN_def)

lemma free_negative:
  "sint (references k) \<le> 0 \<Longrightarrow> INT_MIN < sint (references k) \<Longrightarrow>
   oqsx_key_free False (Some k) w = Inl AssertionFailed"
  by (simp add: oqsx_key_free_def Let_def INT_MIN_def)

lemma free_calls_live:
  "1 \<le> sint (references k) \<Longrightarrow> int n \<le> sint (references k) \<Longrightarrow>
   \<exists>w'. free_calls nd n (Some k) w = Inr (Some (k\<lparr>references := references k - of_nat n\<rparr>), w')
       \<and> (\<forall>r. release_count r (events w') =
               release_count r (events w) +
               (if int n = sint (references k) \<and> holds k r then 1 else 0))"
proof (induction n arbitrary: k w)
  case 0
  then show ?case by simp
next
  case (Suc n)
  let ?k1 = "k\<lparr>references := references k - 1\<rparr>"
  show ?case
  proof (cases "sint (references k) = 1")
    case True
    with Suc.prems have n0: "n = 0" by simp
    show ?thesis
      using True n0
      by (simp add: free_last release_count_release_all release_count_debug_line)
  next
    case False
    with Suc.prems have gt: "1 < sint (references k)" by simp
    then have s1: "sint (references ?k1) = sint (references k) - 1"
      by (simp add: sint_pred32)
    have p1: "1 \<le> sint (references ?k1)" using gt s1 by simp
    have p2: "int n \<le> sint (references ?k1)" using Suc.prems s1 by simp
    from Suc.IH [OF p1 p2, of "debug_line nd (sint (references k) - 1) w"]
    obtain w' where
      run: "free_calls nd n (Some ?k1) (debug_line nd (sint (references k) - 1) w) =
              Inr (Some (?k1\<lparr>references := references ?k1 - of_nat n\<rparr>), w')"
      and cnt: "\<forall>r. release_count r (events w') =
              release_count r (events (debug_line nd (sint (references k) - 1) w)) +
              (if int n = sint (references ?k1) \<and> holds ?k1 r then 1 else 0)"
      by blast
    show ?thesis
      using run cnt s1 gt
      by (simp add: free_positive release_count_debug_line)
  qed
qed

text \<open>
  C1, as stated, fails when the count after the decrement is negative: with
  assertions compiled in the call aborts instead of returning, and under
  \<^verbatim>\<open>NDEBUG\<close> it releases everything although the count is not zero.
\<close>

theorem free_negative_count:
  "sint (references (demo_key\<lparr>references := 0\<rparr>) - 1) = - 1
   \<and> oqsx_key_free False (Some (demo_key\<lparr>references := 0\<rparr>)) (fresh_world []) = Inl AssertionFailed
   \<and> oqsx_key_free True (Some (demo_key\<lparr>references := 0\<rparr>)) (fresh_world []) =
       Inr (Some (demo_key\<lparr>references := - 1\<rparr>),
            \<lparr>alloc_plan = [], events = [Released Propq, Released AlgHandle, Released KeyObject]\<rparr>)"
  by (simp add: oqsx_key_free_def Let_def INT_MIN_def demo_key_def fresh_world_def
      debug_line_def release_all_def OPENSSL_free_def OPENSSL_secure_clear_free_def
      OQS_KEM_free_def OQS_SIG_free_def emit_def)

text \<open>
  C1, amended: \<^verbatim>\<open>oqsx_key_free\<close> on \<^verbatim>\<open>NULL\<close> does nothing. On a key it decrements the
  count; if the resulting count is positive it returns with nothing else done (but
  the line on the error stream of a build without \<^verbatim>\<open>NDEBUG\<close>); if it is zero it
  releases the property string, the private key buffer, the public key buffer, the
  algorithm handle and the object, in that order; if it is negative the assertion
  of a build without \<^verbatim>\<open>NDEBUG\<close> fails. For a key holding \<open>c \<ge> 1\<close> references, a run
  of \<open>n \<le> c\<close> calls releases each resource the key holds exactly once if \<open>n = c\<close>
  and not at all if \<open>n < c\<close>.
\<close>

theorem free_releases_at_zero:
  "oqsx_key_free nd None w = Inr (None, w)
   \<and> (1 < sint (references k) \<longrightarrow>
        oqsx_key_free nd (Some k) w =
          Inr (Some (k\<lparr>references := references k - 1\<rparr>),
               debug_line nd (sint (references k) - 1) w))
   \<and> (sint (references k) = 1 \<longrightarrow>
        oqsx_key_free nd (Some k) w =
          Inr (Some (k\<lparr>references := references k - 1\<rparr>),
               release_all (k\<lparr>references := references k - 1\<rparr>) (debug_line nd 0 w)))
   \<and> (sint (references k) \<le> 0 \<longrightarrow> INT_MIN < sint (references k) \<longrightarrow>
        oqsx_key_free False (Some k) w = Inl AssertionFailed)
   \<and> (1 \<le> sint (references k) \<longrightarrow> int n \<le> sint (references k) \<longrightarrow>
        (\<exists>w'. free_calls nd n (Some k) w =
                 Inr (Some (k\<lparr>references := references k - of_nat n\<rparr>), w')
             \<and> (\<forall>r. release_count r (events w') =
                     release_count r (events w) +
                     (if int n = sint (references k) \<and> holds k r then 1 else 0))))"
  using free_positive [of k nd w] free_last [of k nd w] free_negative [of k w]
    free_calls_live [of k n nd w]
  by (simp add: oqsx_key_free_def)

theorem free_releases_at_zero_witness:
  "oqsx_key_free False (Some (demo_key\<lparr>references := 2\<rparr>)) (fresh_world []) =
     Inr (Some (demo_key\<lparr>references := 1\<rparr>), \<lparr>alloc_plan = [], events = [StderrRefcnt 1]\<rparr>)
   \<and> oqsx_key_free False (Some demo_key) (fresh_world []) =
       Inr (Some (demo_key\<lparr>references := 0\<rparr>),
            \<lparr>alloc_plan = [], events = [StderrRefcnt 0, Released Propq, Released AlgHandle,
               Released KeyObject]\<rparr>)
   \<and> oqsx_key_free False (Some (demo_key\<lparr>references := 0\<rparr>)) (fresh_world []) =
       Inl AssertionFailed
   \<and> (\<exists>w'. free_calls True 2 (Some (demo_key\<lparr>references := 2\<rparr>)) (fresh_world []) =
               Inr (Some (demo_key\<lparr>references := 0\<rparr>), w')
          \<and> release_count KeyObject (events w') = 1
          \<and> release_count Propq (events w') = 1
          \<and> release_count TlsName (events w') = 0)"
proof -
  let ?k2 = "demo_key\<lparr>references := 2\<rparr>"
  have two: "sint (references ?k2) = 2" by simp
  have run: "\<exists>w'. free_calls True 2 (Some ?k2) (fresh_world []) =
               Inr (Some (?k2\<lparr>references := references ?k2 - of_nat 2\<rparr>), w')
             \<and> (\<forall>r. release_count r (events w') =
                     release_count r (events (fresh_world [])) +
                     (if int 2 = sint (references ?k2) \<and> holds ?k2 r then 1 else 0))"
    using free_releases_at_zero [of True "fresh_world []" ?k2 2] two by simp
  then obtain w' where
    r1: "free_calls True 2 (Some ?k2) (fresh_world []) =
           Inr (Some (?k2\<lparr>references := references ?k2 - of_nat 2\<rparr>), w')"
    and r2: "\<And>r. release_count r (events w') =
           release_count r (events (fresh_world [])) +
           (if int 2 = sint (references ?k2) \<and> holds ?k2 r then 1 else 0)"
    by blast
  have last: "\<exists>w'. free_calls True 2 (Some ?k2) (fresh_world []) =
               Inr (Some (demo_key\<lparr>references := 0\<rparr>), w')
          \<and> release_count KeyObject (events w') = 1
          \<and> release_count Propq (events w') = 1
          \<and> release_count TlsName (events w') = 0"
    using r1 r2 [of KeyObject] r2 [of Propq] r2 [of TlsName]
    by (simp add: demo_key_def fresh_world_def release_count_def)
  have single: "oqsx_key_free False (Some ?k2) (fresh_world []) =
     Inr (Some (demo_key\<lparr>references := 1\<rparr>), \<lparr>alloc_plan = [], events = [StderrRefcnt 1]\<rparr>)
   \<and> oqsx_key_free False (Some demo_key) (fresh_world []) =
       Inr (Some (demo_key\<lparr>references := 0\<rparr>),
            \<lparr>alloc_plan = [], events = [StderrRefcnt 0, Released Propq, Released AlgHandle,
               Released KeyObject]\<rparr>)
   \<and> oqsx_key_free False (Some (demo_key\<lparr>references := 0\<rparr>)) (fresh_world []) =
       Inl AssertionFailed"
    using free_releases_at_zero [of False "fresh_world []" ?k2 0]
      free_releases_at_zero [of False "fresh_world []" demo_key 0]
      free_releases_at_zero [of False "fresh_world []" "demo_key\<lparr>references := 0\<rparr>" 0]
    by (simp add: demo_key_def fresh_world_def INT_MIN_def debug_line_def emit_def
        release_all_def OPENSSL_free_def OPENSSL_secure_clear_free_def OQS_KEM_free_def OQS_SIG_free_def)
  from single last show ?thesis by blast
qed

text \<open>
  C9, as stated, fails in two places. On a count of 0, a build without \<^verbatim>\<open>NDEBUG\<close>
  does not return a failure: \<^verbatim>\<open>assert(refcnt > 1)\<close> aborts the process. On a count
  of \<open>INT_MAX\<close>, which is positive, success is not returned: the \<^verbatim>\<open>int\<close> addition
  overflows.
\<close>

theorem up_ref_abort_and_overflow:
  "sint (references (demo_key\<lparr>references := 0\<rparr>)) = 0
   \<and> oqsx_key_up_ref False (demo_key\<lparr>references := 0\<rparr>) (fresh_world []) =
       Inl AssertionFailed
   \<and> sint (references (demo_key\<lparr>references := 2147483647\<rparr>)) = INT_MAX
   \<and> 0 < INT_MAX
   \<and> oqsx_key_up_ref True (demo_key\<lparr>references := 2147483647\<rparr>) (fresh_world []) =
       Inl SignedOverflow
   \<and> oqsx_key_up_ref False (demo_key\<lparr>references := 2147483647\<rparr>) (fresh_world []) =
       Inl SignedOverflow"
  by (simp add: oqsx_key_up_ref_def Let_def INT_MAX_def debug_line_def)

text \<open>
  C9, amended: for a count below \<open>INT_MAX\<close>, \<^verbatim>\<open>oqsx_key_up_ref\<close> increments the count
  and returns success (1) exactly when the count before the increment was positive.
  When that count was 0 or less, a build with \<^verbatim>\<open>NDEBUG\<close> returns failure (0) and a
  build without it aborts on \<^verbatim>\<open>assert(refcnt > 1)\<close> and returns nothing.
\<close>

theorem up_ref_result:
  assumes "sint (references key0) < INT_MAX"
  shows "oqsx_key_up_ref ndebug key0 w =
           (if 0 < sint (references key0) then
              Inr (1, key0\<lparr>references := references key0 + 1\<rparr>,
                   debug_line ndebug (sint (references key0) + 1) w)
            else if ndebug then Inr (0, key0\<lparr>references := references key0 + 1\<rparr>, w)
            else Inl AssertionFailed)
         \<and> sint (references key0 + 1) = sint (references key0) + 1"
  using assms
  by (simp add: oqsx_key_up_ref_def INT_MAX_def Let_def sint_succ32 debug_line_def)

theorem up_ref_result_witness:
  "sint (references demo_key) < INT_MAX
   \<and> oqsx_key_up_ref True demo_key (fresh_world []) =
       Inr (1, demo_key\<lparr>references := 2\<rparr>, fresh_world [])
   \<and> sint (references (demo_key\<lparr>references := 0\<rparr>)) < INT_MAX
   \<and> oqsx_key_up_ref True (demo_key\<lparr>references := 0\<rparr>) (fresh_world []) =
       Inr (0, demo_key\<lparr>references := 1\<rparr>, fresh_world [])
   \<and> oqsx_key_up_ref False (demo_key\<lparr>references := 0\<rparr>) (fresh_world []) =
       Inl AssertionFailed"
  using up_ref_result [of demo_key True "fresh_world []"]
    up_ref_result [of "demo_key\<lparr>references := 0\<rparr>" True "fresh_world []"]
    up_ref_result [of "demo_key\<lparr>references := 0\<rparr>" False "fresh_world []"]
  by (simp add: demo_key_def INT_MAX_def debug_line_def)

subsection \<open>Population from parameters\<close>

text \<open>
  C10: with neither a private-key nor a public-key entry in the parameter list,
  \<^verbatim>\<open>oqsx_key_fromdata\<close> returns success (1) and leaves the key object, every member
  of it, and the world as they were.
\<close>

theorem fromdata_no_entries:
  assumes "OSSL_PARAM_locate_const params OSSL_PKEY_PARAM_PRIV_KEY = None"
    and "OSSL_PARAM_locate_const params OSSL_PKEY_PARAM_PUB_KEY = None"
  shows "oqsx_key_fromdata key0 params include_private w = (1, key0, w)"
  using assms by (simp add: oqsx_key_fromdata_def fromdata_priv_def fromdata_pub_def)

theorem fromdata_no_entries_witness:
  "OSSL_PARAM_locate_const [other_entry] OSSL_PKEY_PARAM_PRIV_KEY = None
   \<and> OSSL_PARAM_locate_const [other_entry] OSSL_PKEY_PARAM_PUB_KEY = None
   \<and> oqsx_key_fromdata demo_key [other_entry] 1 (fresh_world [True]) =
       (1, demo_key, fresh_world [True])"
proof -
  have a: "OSSL_PARAM_locate_const [other_entry] OSSL_PKEY_PARAM_PRIV_KEY = None"
    by (simp add: OSSL_PARAM_locate_const_def other_entry_def OSSL_PKEY_PARAM_PRIV_KEY_def)
  have b: "OSSL_PARAM_locate_const [other_entry] OSSL_PKEY_PARAM_PUB_KEY = None"
    by (simp add: OSSL_PARAM_locate_const_def other_entry_def OSSL_PKEY_PARAM_PUB_KEY_def)
  show ?thesis
    using a b fromdata_no_entries [OF a b, of demo_key 1 "fresh_world [True]"] by simp
qed

lemma fromdata_pub_Inr:
  assumes "OSSL_PARAM_locate_const params OSSL_PKEY_PARAM_PUB_KEY = Some p"
    and "fromdata_pub k1 params w1 = Inr (k2, w2)"
  shows "data_type p = OSSL_PARAM_OCTET_STRING \<and> pubkey k2 = Some (data p) \<and> pubkeylen k2 = length (data p)"
  using assms
  by (auto simp: fromdata_pub_def OPENSSL_secure_malloc_def data_size_def memcpy_whole Let_def
      split: if_splits prod.splits option.splits bool.splits)

text \<open>
  C8: when the located public-key entry is an octet string of \<open>N\<close> bytes and
  \<^verbatim>\<open>oqsx_key_fromdata\<close> returns success (1), the public key buffer holds exactly
  those bytes and \<open>pubkeylen\<close> is \<open>N\<close>, whatever length the algorithm advertises.
\<close>

theorem fromdata_pub_bytes:
  assumes "OSSL_PARAM_locate_const params OSSL_PKEY_PARAM_PUB_KEY = Some p"
    and "data_type p = OSSL_PARAM_OCTET_STRING"
    and "oqsx_key_fromdata key0 params include_private w = (1, key', w')"
  shows "pubkey key' = Some (data p) \<and> pubkeylen key' = length (data p)"
proof -
  from assms(3) obtain k1 w1 where "fromdata_pub k1 params w1 = Inr (key', w')"
    by (auto simp: oqsx_key_fromdata_def split: sum.splits prod.splits)
  with assms(1) show ?thesis by (auto dest: fromdata_pub_Inr)
qed

lemma fromdata_pub_only_run:
  "oqsx_key_fromdata demo_key [pub_entry 5 [7, 8, 9]] 0 (fresh_world [True]) =
     (1, demo_key\<lparr>pubkey := Some [7, 8, 9], pubkeylen := 3\<rparr>,
      \<lparr>alloc_plan = [], events = [Allocated PubKey]\<rparr>)"
  by (simp add: oqsx_key_fromdata_def fromdata_priv_def fromdata_pub_def
      OSSL_PARAM_locate_const_def pub_entry_def OSSL_PKEY_PARAM_PRIV_KEY_def
      OSSL_PKEY_PARAM_PUB_KEY_def OSSL_PARAM_OCTET_STRING_def demo_key_def fresh_world_def
      OPENSSL_secure_clear_free_def OPENSSL_secure_malloc_def request_def emit_def
      data_size_def memcpy_def Let_def)

theorem fromdata_pub_bytes_witness:
  "OSSL_PARAM_locate_const [pub_entry 5 [7, 8, 9]] OSSL_PKEY_PARAM_PUB_KEY = Some (pub_entry 5 [7, 8, 9])
   \<and> data_type (pub_entry 5 [7, 8, 9]) = OSSL_PARAM_OCTET_STRING
   \<and> oqsx_key_fromdata demo_key [pub_entry 5 [7, 8, 9]] 0 (fresh_world [True]) =
       (1, demo_key\<lparr>pubkey := Some [7, 8, 9], pubkeylen := 3\<rparr>,
        \<lparr>alloc_plan = [], events = [Allocated PubKey]\<rparr>)
   \<and> pubkey (demo_key\<lparr>pubkey := Some [7, 8, 9], pubkeylen := 3\<rparr>) = Some (data (pub_entry 5 [7, 8, 9]))
   \<and> pubkeylen (demo_key\<lparr>pubkey := Some [7, 8, 9], pubkeylen := 3\<rparr>) = length (data (pub_entry 5 [7, 8, 9]))
   \<and> pubkeylen demo_key = 2"
proof -
  have a: "OSSL_PARAM_locate_const [pub_entry 5 [7, 8, 9]] OSSL_PKEY_PARAM_PUB_KEY = Some (pub_entry 5 [7, 8, 9])"
    by (simp add: OSSL_PARAM_locate_const_def pub_entry_def OSSL_PKEY_PARAM_PUB_KEY_def)
  have b: "data_type (pub_entry 5 [7, 8, 9]) = OSSL_PARAM_OCTET_STRING"
    by (simp add: pub_entry_def OSSL_PARAM_OCTET_STRING_def)
  have c: "pubkeylen demo_key = 2" by (simp add: demo_key_def)
  show ?thesis
    using a b c fromdata_pub_only_run fromdata_pub_bytes [OF a b fromdata_pub_only_run]
    by simp
qed

lemma fromdata_priv_keeps_pub:
  assumes "fromdata_priv k params w = Inl (k', w') \<or> fromdata_priv k params w = Inr (k', w')"
  shows "pubkey k' = pubkey k \<and> pubkeylen k' = pubkeylen k"
proof (cases "OSSL_PARAM_locate_const params OSSL_PKEY_PARAM_PRIV_KEY")
  case None
  with assms show ?thesis by (simp add: fromdata_priv_def)
next
  case (Some p)
  show ?thesis
  proof (cases "data_type p \<noteq> OSSL_PARAM_OCTET_STRING")
    case True
    with Some assms show ?thesis by (simp add: fromdata_priv_def)
  next
    case False
    obtain b w2 where m: "OPENSSL_secure_malloc PrivKey (data_size p)
        (OPENSSL_secure_clear_free PrivKey (privkey k) (privkeylen k) w) = (b, w2)"
      by (cases "OPENSSL_secure_malloc PrivKey (data_size p)
        (OPENSSL_secure_clear_free PrivKey (privkey k) (privkeylen k) w)")
    show ?thesis
      using assms Some False m
      by (cases b) (auto simp: fromdata_priv_def Let_def)
  qed
qed

lemma fromdata_priv_Inl_located:
  "fromdata_priv k params w = Inl r \<Longrightarrow>
   OSSL_PARAM_locate_const params OSSL_PKEY_PARAM_PRIV_KEY \<noteq> None"
  by (cases "OSSL_PARAM_locate_const params OSSL_PKEY_PARAM_PRIV_KEY")
     (simp_all add: fromdata_priv_def)

lemma fromdata_priv_bad_type:
  "OSSL_PARAM_locate_const params OSSL_PKEY_PARAM_PRIV_KEY = Some p \<Longrightarrow>
   data_type p \<noteq> OSSL_PARAM_OCTET_STRING \<Longrightarrow>
   oqsx_key_fromdata k params ip w = (0, k, emit (Stdout invalid_data_type) w)"
  by (simp add: oqsx_key_fromdata_def fromdata_priv_def)

lemma fromdata_pub_bad_type:
  assumes "OSSL_PARAM_locate_const params OSSL_PKEY_PARAM_PUB_KEY = Some q"
    and "data_type q \<noteq> OSSL_PARAM_OCTET_STRING"
    and "oqsx_key_fromdata k params ip w = (rc, k', w')"
  shows "rc = 0 \<and> pubkey k' = pubkey k \<and> pubkeylen k' = pubkeylen k
         \<and> (OSSL_PARAM_locate_const params OSSL_PKEY_PARAM_PRIV_KEY = None \<longrightarrow>
              k' = k \<and> w' = emit (Stdout invalid_data_type) w)"
proof (cases "fromdata_priv k params w")
  case (Inl a)
  obtain k1 w1 where a: "a = (k1, w1)" by (cases a)
  from assms(3) Inl a have r: "rc = 0" "k' = k1" by (simp_all add: oqsx_key_fromdata_def)
  have "OSSL_PARAM_locate_const params OSSL_PKEY_PARAM_PRIV_KEY \<noteq> None"
    using Inl by (rule fromdata_priv_Inl_located)
  then show ?thesis using r fromdata_priv_keeps_pub [of k params w k1 w1] Inl a by auto
next
  case (Inr b)
  obtain k1 w1 where b: "b = (k1, w1)" by (cases b)
  have pub: "fromdata_pub k1 params w1 = Inl (k1, emit (Stdout invalid_data_type) w1)"
    using assms(1,2) by (simp add: fromdata_pub_def)
  from assms(3) Inr b pub have r: "rc = 0" "k' = k1" "w' = emit (Stdout invalid_data_type) w1"
    by (simp_all add: oqsx_key_fromdata_def)
  have "k1 = k \<and> w1 = w" if "OSSL_PARAM_locate_const params OSSL_PKEY_PARAM_PRIV_KEY = None"
    using that Inr b by (simp add: fromdata_priv_def)
  then show ?thesis using r fromdata_priv_keeps_pub [of k params w k1 w1] Inr b by simp
qed

lemmas fd_defs = oqsx_key_fromdata_def fromdata_priv_def fromdata_pub_def
      OSSL_PARAM_locate_const_def pub_entry_def priv_entry_def OSSL_PKEY_PARAM_PRIV_KEY_def
      OSSL_PKEY_PARAM_PUB_KEY_def OSSL_PARAM_OCTET_STRING_def demo_key_def fresh_world_def
      OPENSSL_secure_clear_free_def OPENSSL_secure_malloc_def request_def emit_def
      data_size_def memcpy_def Let_def

text \<open>
  C2, as stated, fails when a well-typed private-key entry comes with a wrongly
  typed public-key entry: the private key has been replaced by the time the
  public-key entry is examined, and the call then returns 0.
\<close>

theorem fromdata_bad_pub_after_priv:
  "oqsx_key_fromdata demo_key [priv_entry 5 [1, 2], pub_entry 4 [9]] 1 (fresh_world [True]) =
     (0, demo_key\<lparr>privkey := Some [1, 2], privkeylen := 2\<rparr>,
      \<lparr>alloc_plan = [], events = [Allocated PrivKey, Stdout invalid_data_type]\<rparr>)
   \<and> data_type (pub_entry 4 [9]) \<noteq> OSSL_PARAM_OCTET_STRING
   \<and> privkey demo_key = None \<and> privkeylen demo_key = 3"
  by (simp add: fd_defs)

text \<open>
  C2, amended: if the located private-key entry is not an octet string,
  \<^verbatim>\<open>oqsx_key_fromdata\<close> returns failure (0) and leaves the whole key object as it
  was. If the located public-key entry is not an octet string, it returns failure
  (0) and leaves the public key buffer and its length as they were; the private key
  buffer and its length are as they were too when the list has no private-key entry.
\<close>

theorem fromdata_bad_type:
  "(OSSL_PARAM_locate_const params OSSL_PKEY_PARAM_PRIV_KEY = Some p \<longrightarrow>
      data_type p \<noteq> OSSL_PARAM_OCTET_STRING \<longrightarrow>
      oqsx_key_fromdata k params ip w = (0, k, emit (Stdout invalid_data_type) w))
   \<and> (OSSL_PARAM_locate_const params OSSL_PKEY_PARAM_PUB_KEY = Some q \<longrightarrow>
      data_type q \<noteq> OSSL_PARAM_OCTET_STRING \<longrightarrow>
      (case oqsx_key_fromdata k params ip w of
         (rc, k', w') \<Rightarrow>
           rc = 0 \<and> pubkey k' = pubkey k \<and> pubkeylen k' = pubkeylen k
           \<and> (OSSL_PARAM_locate_const params OSSL_PKEY_PARAM_PRIV_KEY = None \<longrightarrow>
                k' = k \<and> w' = emit (Stdout invalid_data_type) w)))"
proof -
  obtain rc k' w' where r: "oqsx_key_fromdata k params ip w = (rc, k', w')"
    by (cases "oqsx_key_fromdata k params ip w")
  show ?thesis
    using fromdata_priv_bad_type [of params p k ip w]
      fromdata_pub_bad_type [of params q k ip w rc k' w'] r
    by simp
qed

theorem fromdata_bad_type_witness:
  "OSSL_PARAM_locate_const [priv_entry 4 [1], pub_entry 4 [9]] OSSL_PKEY_PARAM_PRIV_KEY =
     Some (priv_entry 4 [1])
   \<and> data_type (priv_entry 4 [1]) \<noteq> OSSL_PARAM_OCTET_STRING
   \<and> oqsx_key_fromdata demo_key [priv_entry 4 [1], pub_entry 4 [9]] 1 (fresh_world [True]) =
       (0, demo_key, emit (Stdout invalid_data_type) (fresh_world [True]))
   \<and> OSSL_PARAM_locate_const [pub_entry 4 [9]] OSSL_PKEY_PARAM_PUB_KEY = Some (pub_entry 4 [9])
   \<and> data_type (pub_entry 4 [9]) \<noteq> OSSL_PARAM_OCTET_STRING
   \<and> OSSL_PARAM_locate_const [pub_entry 4 [9]] OSSL_PKEY_PARAM_PRIV_KEY = None
   \<and> oqsx_key_fromdata demo_key [pub_entry 4 [9]] 1 (fresh_world [True]) =
       (0, demo_key, emit (Stdout invalid_data_type) (fresh_world [True]))"
proof -
  have a: "OSSL_PARAM_locate_const [priv_entry 4 [1], pub_entry 4 [9]] OSSL_PKEY_PARAM_PRIV_KEY =
      Some (priv_entry 4 [1])"
    by (simp add: OSSL_PARAM_locate_const_def priv_entry_def OSSL_PKEY_PARAM_PRIV_KEY_def)
  have b: "data_type (priv_entry 4 [1]) \<noteq> OSSL_PARAM_OCTET_STRING"
    by (simp add: priv_entry_def OSSL_PARAM_OCTET_STRING_def)
  have c: "OSSL_PARAM_locate_const [pub_entry 4 [9]] OSSL_PKEY_PARAM_PUB_KEY = Some (pub_entry 4 [9])"
    by (simp add: OSSL_PARAM_locate_const_def pub_entry_def OSSL_PKEY_PARAM_PUB_KEY_def)
  have d: "data_type (pub_entry 4 [9]) \<noteq> OSSL_PARAM_OCTET_STRING"
    by (simp add: pub_entry_def OSSL_PARAM_OCTET_STRING_def)
  have e: "OSSL_PARAM_locate_const [pub_entry 4 [9]] OSSL_PKEY_PARAM_PRIV_KEY = None"
    by (simp add: OSSL_PARAM_locate_const_def pub_entry_def OSSL_PKEY_PARAM_PRIV_KEY_def)
  have first: "oqsx_key_fromdata demo_key [priv_entry 4 [1], pub_entry 4 [9]] 1 (fresh_world [True]) =
       (0, demo_key, emit (Stdout invalid_data_type) (fresh_world [True]))"
    using fromdata_bad_type [of "[priv_entry 4 [1], pub_entry 4 [9]]" "priv_entry 4 [1]"
        demo_key 1 "fresh_world [True]"] a b
    by simp
  have second: "oqsx_key_fromdata demo_key [pub_entry 4 [9]] 1 (fresh_world [True]) =
       (0, demo_key, emit (Stdout invalid_data_type) (fresh_world [True]))"
    using fromdata_bad_type [of "[pub_entry 4 [9]]" _ demo_key 1 "fresh_world [True]"
        "pub_entry 4 [9]"] c d e
    by (cases "oqsx_key_fromdata demo_key [pub_entry 4 [9]] 1 (fresh_world [True])") simp
  from a b c d e first second show ?thesis by simp
qed

text \<open>
  C3: the flag that permits private-key population is not consulted. With the flag
  0 and a private-key entry in the list, \<^verbatim>\<open>oqsx_key_fromdata\<close> replaces the private
  key and its length all the same.
\<close>

theorem fromdata_ignores_include_private:
  "oqsx_key_fromdata demo_key [priv_entry 5 [1, 2]] 0 (fresh_world [True]) =
     (1, demo_key\<lparr>privkey := Some [1, 2], privkeylen := 2\<rparr>,
      \<lparr>alloc_plan = [], events = [Allocated PrivKey]\<rparr>)
   \<and> privkey demo_key = None \<and> privkeylen demo_key = 3
   \<and> (\<forall>k ps a b w. oqsx_key_fromdata k ps a w = oqsx_key_fromdata k ps b w)"
  by (simp add: fd_defs)

subsection \<open>Key material allocation\<close>

lemma release_count_request:
  "release_count r (events (snd (request r' w))) = release_count r (events w)"
  by (simp add: request_def release_count_emit split: list.splits)

lemma release_count_secure_zalloc:
  "release_count r (events (snd (OPENSSL_secure_zalloc r' n w))) = release_count r (events w)"
proof (cases "request r' w")
  case (Pair b w')
  with release_count_request [of r r' w] show ?thesis
    by (cases b) (simp_all add: OPENSSL_secure_zalloc_def)
qed

lemma secure_zalloc_buffer:
  "fst (OPENSSL_secure_zalloc r n w) = None \<or> fst (OPENSSL_secure_zalloc r n w) = Some (replicate n 0)"
proof (cases "request r w")
  case (Pair b w')
  then show ?thesis by (cases b) (simp_all add: OPENSSL_secure_zalloc_def)
qed

text \<open>
  C6, as stated, fails on a partial failure: the buffer that was allocated is not
  released and stays in its field.
\<close>

theorem allocate_keymaterial_partial:
  "oqsx_key_allocate_keymaterial demo_key (fresh_world [True, False]) =
     (1, demo_key\<lparr>privkey := Some [0, 0, 0], pubkey := None\<rparr>,
      \<lparr>alloc_plan = [], events = [Allocated PrivKey]\<rparr>)
   \<and> oqsx_key_allocate_keymaterial demo_key (fresh_world [False, True]) =
     (1, demo_key\<lparr>privkey := None, pubkey := Some [0, 0]\<rparr>,
      \<lparr>alloc_plan = [], events = [Allocated PubKey]\<rparr>)"
  by (simp add: oqsx_key_allocate_keymaterial_def OPENSSL_secure_zalloc_def request_def
      demo_key_def fresh_world_def emit_def Let_def numeral_3_eq_3 numeral_2_eq_2)

text \<open>
  C6, amended: \<^verbatim>\<open>oqsx_key_allocate_keymaterial\<close> returns success (0) exactly when
  both allocations succeed, and failure (1) otherwise; after success both buffers
  are non-null, of \<open>privkeylen\<close> and \<open>pubkeylen\<close> bytes, all zero. On a partial
  failure nothing is released: each field holds what its own allocation returned,
  the zeroed buffer or \<^verbatim>\<open>NULL\<close>. No other member of the key changes.
\<close>

theorem allocate_keymaterial_result:
  "(case oqsx_key_allocate_keymaterial k w of
      (rc, k', w') \<Rightarrow>
        (rc = 0 \<or> rc = 1)
        \<and> (rc = 0) = (privkey k' \<noteq> None \<and> pubkey k' \<noteq> None)
        \<and> privkey k' = fst (OPENSSL_secure_zalloc PrivKey (privkeylen k) w)
        \<and> pubkey k' = fst (OPENSSL_secure_zalloc PubKey (pubkeylen k)
                              (snd (OPENSSL_secure_zalloc PrivKey (privkeylen k) w)))
        \<and> (privkey k' = None \<or> privkey k' = Some (replicate (privkeylen k') 0))
        \<and> (pubkey k' = None \<or> pubkey k' = Some (replicate (pubkeylen k') 0))
        \<and> k' = k\<lparr>privkey := privkey k', pubkey := pubkey k'\<rparr>
        \<and> (\<forall>r. release_count r (events w') = release_count r (events w)))"
proof -
  obtain p w1 where a: "OPENSSL_secure_zalloc PrivKey (privkeylen k) w = (p, w1)"
    by (cases "OPENSSL_secure_zalloc PrivKey (privkeylen k) w")
  obtain q w2 where b: "OPENSSL_secure_zalloc PubKey (pubkeylen k) w1 = (q, w2)"
    by (cases "OPENSSL_secure_zalloc PubKey (pubkeylen k) w1")
  have run: "oqsx_key_allocate_keymaterial k w =
      ((if p = None \<or> q = None then 1 else 0), k\<lparr>privkey := p, pubkey := q\<rparr>, w2)"
    by (simp add: oqsx_key_allocate_keymaterial_def a b Let_def)
  have pz: "p = None \<or> p = Some (replicate (privkeylen k) 0)"
    using secure_zalloc_buffer [of PrivKey "privkeylen k" w] a by simp
  have qz: "q = None \<or> q = Some (replicate (pubkeylen k) 0)"
    using secure_zalloc_buffer [of PubKey "pubkeylen k" w1] b by simp
  have cnt: "release_count r (events w2) = release_count r (events w)" for r
    using release_count_secure_zalloc [of r PrivKey "privkeylen k" w]
      release_count_secure_zalloc [of r PubKey "pubkeylen k" w1] a b by simp
  show ?thesis
    using pz qz cnt by (simp add: run a b)
qed

theorem allocate_keymaterial_result_witness:
  "oqsx_key_allocate_keymaterial demo_key (fresh_world [True, True]) =
     (0, demo_key\<lparr>privkey := Some [0, 0, 0], pubkey := Some [0, 0]\<rparr>,
      \<lparr>alloc_plan = [], events = [Allocated PrivKey, Allocated PubKey]\<rparr>)
   \<and> release_count PrivKey [Allocated PrivKey, Allocated PubKey] = 0"
proof -
  have run: "oqsx_key_allocate_keymaterial demo_key (fresh_world [True, True]) =
     (0, demo_key\<lparr>privkey := Some [0, 0, 0], pubkey := Some [0, 0]\<rparr>,
      \<lparr>alloc_plan = [], events = [Allocated PrivKey, Allocated PubKey]\<rparr>)"
    by (simp add: oqsx_key_allocate_keymaterial_def OPENSSL_secure_zalloc_def request_def
        demo_key_def fresh_world_def emit_def Let_def numeral_3_eq_3 numeral_2_eq_2)
  show ?thesis
    using allocate_keymaterial_result [of demo_key "fresh_world [True, True]"] run
    by (simp add: fresh_world_def release_count_def)
qed

subsection \<open>Construction\<close>

lemmas new_defs = oqsx_key_new_def OPENSSL_zalloc_def OPENSSL_strdup_def request_def emit_def
  OQS_new_def deref_k_def deref_s_def demo_kems_def demo_sigs_def demo_kem_def demo_sig_def
  zeroed_key_def fresh_world_def OPENSSL_free_def Let_def

text \<open>
  C4: when the copy of the property query cannot be allocated, \<^verbatim>\<open>oqsx_key_new\<close>
  returns \<^verbatim>\<open>NULL\<close> after releasing the object alone: the algorithm handle and the
  copy of the name stay allocated. When the copy of the name cannot be allocated,
  the failure is not noticed and a key without a name is returned.
\<close>

theorem new_leaks_on_propq_failure:
  "oqsx_key_new demo_kems demo_sigs None ''demo-kem'' (Some ''demo'') 1 (Some ''p'')
       (fresh_world [True, True, False]) =
     Inr (None, \<lparr>alloc_plan = [], events =
       [Allocated KeyObject, Allocated AlgHandle, Allocated TlsName,
        ErrRaised ERR_LIB_EC ERR_R_MALLOC_FAILURE, ErrRaised ERR_LIB_EC ERR_R_MALLOC_FAILURE,
        Released KeyObject]\<rparr>)
   \<and> oqsx_key_new demo_kems demo_sigs None ''demo-kem'' (Some ''demo'') 1 None
       (fresh_world [True, False]) =
     Inr (Some (demo_key\<lparr>propq := None, tls_name := None\<rparr>),
          \<lparr>alloc_plan = [], events = [Allocated KeyObject, Allocated AlgHandle]\<rparr>)"
  by (simp add: new_defs demo_key_def)

text \<open>
  C5: for a name that liboqs does not resolve, \<^verbatim>\<open>oqsx_key_new\<close> dereferences the
  \<^verbatim>\<open>NULL\<close> handle, for a KEM and for a signature alike; no error is returned.
\<close>

theorem new_unknown_algorithm:
  "oqsx_key_new demo_kems demo_sigs None ''no-such-alg'' (Some ''demo'') 1 None
       (fresh_world [True, True]) = Inl NullDereference
   \<and> oqsx_key_new demo_kems demo_sigs None ''no-such-alg'' (Some ''demo'') 0 None
       (fresh_world [True, True]) = Inl NullDereference
   \<and> demo_kems ''no-such-alg'' = None \<and> demo_sigs ''no-such-alg'' = None"
  by (simp add: new_defs)

end
